theory Spec2Isabelle
  imports Complex_Main
begin

section \<open>Data model (supabase/migrations)\<close>

text \<open>
  Identifiers are UUID strings, instants are milliseconds since the epoch (what
  \<^verbatim>\<open>Date.getTime()\<close> returns), and the numbers of JavaScript and the \<^verbatim>\<open>REAL\<close>
  columns of the store are idealised as real numbers.  A nullable column is an option.
\<close>

type_synonym uuid = string
type_synonym timestamp = int

datatype bot_platform = Telegram | Discord
datatype bot_runtime = Python | Nodejs | Php
datatype bot_status = Online | Offline | Deploying | Error | Stopped

record bot =
  b_id :: uuid
  b_user_id :: uuid
  b_name :: string
  b_platform :: bot_platform
  b_runtime :: bot_runtime
  b_status :: bot_status
  b_container_id :: "string option"
  b_script_content :: "string option"
  b_cpu_usage :: "real option"
  b_memory_usage :: "real option"
  b_uptime_seconds :: "int option"
  b_last_started_at :: "timestamp option"
  b_created_at :: timestamp
  b_updated_at :: timestamp

record bot_env_var =
  e_bot_id :: uuid
  e_key :: string
  e_value :: string
  e_created_at :: timestamp

record bot_log =
  l_bot_id :: uuid
  l_level :: string
  l_message :: string
  l_created_at :: timestamp

record resource_sample =
  h_bot_id :: uuid
  h_cpu_usage :: real
  h_memory_usage :: real
  h_recorded_at :: timestamp

text \<open>The entry of the process-local \<^verbatim>\<open>containerStates\<close> map of bot-manager.\<close>

record container_state =
  cs_containerId :: string
  cs_status :: string
  cs_startedAt :: timestamp
  cs_cpuUsage :: real
  cs_memoryUsage :: real

text \<open>
  The four tables, in insertion order, and the in-memory map.  The surrogate keys of the
  three child tables are never read by the functions and are left out.
\<close>

record state =
  bots :: "bot list"
  bot_env_vars :: "bot_env_var list"
  bot_logs :: "bot_log list"
  resource_history :: "resource_sample list"
  containerStates :: "uuid \<rightharpoonup> container_state"

text \<open>The identity provider's user object, as far as the functions read it.\<close>

record user =
  u_id :: uuid
  email_confirmed_at :: "timestamp option"

section \<open>Environment of one invocation\<close>

text \<open>
  Everything an edge function obtains from outside the store: the clock, the identity
  provider behind \<^verbatim>\<open>auth.getUser()\<close>, the random sources, the platform's number and
  time formatting and integer parsing, and the failures of the store that have a cause
  outside the model (connection, timeout).  \<open>random_bits e n\<close> are the bits behind the
  \<open>n\<close>-th call of \<^verbatim>\<open>Math.random()\<close> in the invocation.
\<close>

record env =
  now :: timestamp
  getUser :: "string \<Rightarrow> user option"
  random_bits :: "nat \<Rightarrow> nat"
  randomUUID :: string
  gen_random_uuid :: uuid
  numToString :: "real \<Rightarrow> string"
  toLocaleTimeString :: "timestamp \<Rightarrow> string"
  parseInt :: "string \<Rightarrow> int option"
  select_error :: "string \<Rightarrow> string option"
  write_error :: "uuid \<Rightarrow> string option"

text \<open>\<^verbatim>\<open>Math.random()\<close>: a number in the half-open unit interval, 53 random bits scaled.\<close>

definition Math_random :: "env \<Rightarrow> nat \<Rightarrow> real" where
  "Math_random e n = real (random_bits e n mod 2 ^ 53) / 2 ^ 53"

text \<open>\<^verbatim>\<open>Math.round\<close>: the nearest integer, a tie going up.\<close>

definition Math_round :: "real \<Rightarrow> real" where
  "Math_round x = of_int \<lfloor>x + 1 / 2\<rfloor>"

section \<open>Triggers and row-level security\<close>

text \<open>\<^verbatim>\<open>check_bot_limit\<close>, before insert on bots: the only trigger that raises.\<close>

definition check_bot_limit :: "bot list \<Rightarrow> bot \<Rightarrow> string + bot" where
  "check_bot_limit tbl NEW =
     (let bot_count = length (filter (\<lambda>b. b_user_id b = b_user_id NEW) tbl);
          max_bots = 3
      in if bot_count \<ge> max_bots
         then Inl ''Bot limit exceeded. Maximum 3 bots allowed per user.''
         else Inr NEW)"

text \<open>\<^verbatim>\<open>validate_resource_limits\<close>, before insert or update on bots: always returns the row.\<close>

definition validate_resource_limits :: "bot \<Rightarrow> bot" where
  "validate_resource_limits NEW =
     (let r1 = (case b_cpu_usage NEW of
                  Some c \<Rightarrow> if c > 10 then NEW\<lparr>b_cpu_usage := Some 10\<rparr> else NEW
                | None \<Rightarrow> NEW)
      in case b_memory_usage r1 of
           Some m \<Rightarrow> if m > 50 then r1\<lparr>b_memory_usage := Some 50\<rparr> else r1
         | None \<Rightarrow> r1)"

text \<open>\<^verbatim>\<open>update_updated_at_column\<close>, before update on bots.\<close>

definition update_updated_at_column :: "timestamp \<Rightarrow> bot \<Rightarrow> bot" where
  "update_updated_at_column t NEW = NEW\<lparr>b_updated_at := t\<rparr>"

text \<open>
  The two clients of the functions: \<^verbatim>\<open>supabase\<close>, which carries the caller's token and
  is subject to the row policies (\<^verbatim>\<open>auth.uid() = user_id\<close>), and \<^verbatim>\<open>adminClient\<close>, which
  uses the service role and bypasses them.
\<close>

datatype client = User_client uuid | Admin_client

fun rls :: "client \<Rightarrow> bot \<Rightarrow> bool" where
  "rls (User_client uid) b = (b_user_id b = uid)"
| "rls Admin_client b = True"

text \<open>The policies of the child tables: the parent bot is visible to the client.\<close>

definition rls_child :: "client \<Rightarrow> state \<Rightarrow> uuid \<Rightarrow> bool" where
  "rls_child c s bid = (\<exists>b \<in> set (bots s). b_id b = bid \<and> rls c b)"

section \<open>Store operations\<close>

text \<open>
  Insert into bots: the external failure, the insert policy, the before-insert triggers
  in name order (\<^verbatim>\<open>enforce_bot_limit\<close>, \<^verbatim>\<open>enforce_resource_limits\<close>), the primary key.
\<close>

definition insert_bot :: "env \<Rightarrow> client \<Rightarrow> bot \<Rightarrow> state \<Rightarrow> string + (bot \<times> state)" where
  "insert_bot e c NEW s =
     (case write_error e (b_id NEW) of
        Some err \<Rightarrow> Inl err
      | None \<Rightarrow>
          if \<not> rls c NEW
          then Inl ''new row violates row-level security policy for table bots''
          else (case check_bot_limit (bots s) NEW of
                  Inl err \<Rightarrow> Inl err
                | Inr r1 \<Rightarrow>
                    let r2 = validate_resource_limits r1
                    in if b_id r2 \<in> b_id ` set (bots s)
                       then Inl ''duplicate key value violates unique constraint bots_pkey''
                       else Inr (r2, s\<lparr>bots := bots s @ [r2]\<rparr>)))"

text \<open>
  \<^verbatim>\<open>.update(chg).eq("id", bid)\<close>: every visible row with that id is changed and passed
  through the before-update triggers (\<^verbatim>\<open>enforce_resource_limits\<close>,
  \<^verbatim>\<open>update_bots_updated_at\<close>).  Matching no row is not an error.
\<close>

definition update_bots ::
  "env \<Rightarrow> client \<Rightarrow> uuid \<Rightarrow> (bot \<Rightarrow> bot) \<Rightarrow> state \<Rightarrow> string option \<times> state" where
  "update_bots e c bid chg s =
     (case write_error e bid of
        Some err \<Rightarrow> (Some err, s)
      | None \<Rightarrow>
          (None, s\<lparr>bots :=
             map (\<lambda>b. if b_id b = bid \<and> rls c b
                      then update_updated_at_column (now e) (validate_resource_limits (chg b))
                      else b) (bots s)\<rparr>))"

text \<open>\<^verbatim>\<open>.delete().eq("id", bid)\<close>, with the cascade of the three foreign keys.\<close>

definition delete_bots :: "env \<Rightarrow> client \<Rightarrow> uuid \<Rightarrow> state \<Rightarrow> string option \<times> state" where
  "delete_bots e c bid s =
     (case write_error e bid of
        Some err \<Rightarrow> (Some err, s)
      | None \<Rightarrow>
          if \<exists>b \<in> set (bots s). b_id b = bid \<and> rls c b
          then (None, s\<lparr>bots := filter (\<lambda>b. \<not> (b_id b = bid \<and> rls c b)) (bots s),
                         bot_env_vars := filter (\<lambda>v. e_bot_id v \<noteq> bid) (bot_env_vars s),
                         bot_logs := filter (\<lambda>l. l_bot_id l \<noteq> bid) (bot_logs s),
                         resource_history :=
                           filter (\<lambda>h. h_bot_id h \<noteq> bid) (resource_history s)\<rparr>)
          else (None, s))"

text \<open>
  \<^verbatim>\<open>.select(..).eq("id", bid).single()\<close>: the row when exactly one visible row matches,
  \<^verbatim>\<open>null\<close> otherwise or when the read fails.
\<close>

definition select_bot_single :: "env \<Rightarrow> client \<Rightarrow> uuid \<Rightarrow> state \<Rightarrow> bot option" where
  "select_bot_single e c bid s =
     (case select_error e ''bots'' of
        Some err \<Rightarrow> None
      | None \<Rightarrow> (case filter (\<lambda>b. b_id b = bid \<and> rls c b) (bots s) of
                   [b] \<Rightarrow> Some b
                 | _ \<Rightarrow> None))"

text \<open>\<^verbatim>\<open>.select(..).eq("user_id", uid)\<close>: the rows, or \<^verbatim>\<open>null\<close> when the read fails.\<close>

definition select_bots_of_user :: "env \<Rightarrow> client \<Rightarrow> uuid \<Rightarrow> state \<Rightarrow> bot list option" where
  "select_bots_of_user e c uid s =
     (case select_error e ''bots'' of
        Some err \<Rightarrow> None
      | None \<Rightarrow> Some (filter (\<lambda>b. b_user_id b = uid \<and> rls c b) (bots s)))"

text \<open>
  Inserts into the child tables.  The functions never read their error, so a rejected
  insert leaves no trace; the store accepts the row when its foreign key is satisfied.
\<close>

definition bot_exists :: "state \<Rightarrow> uuid \<Rightarrow> bool" where
  "bot_exists s bid = (bid \<in> b_id ` set (bots s))"

definition insert_bot_log :: "env \<Rightarrow> uuid \<Rightarrow> string \<Rightarrow> string \<Rightarrow> state \<Rightarrow> state" where
  "insert_bot_log e bid level message s =
     (if bot_exists s bid
      then s\<lparr>bot_logs := bot_logs s @
             [\<lparr>l_bot_id = bid, l_level = level, l_message = message, l_created_at = now e\<rparr>]\<rparr>
      else s)"

definition insert_resource_history :: "env \<Rightarrow> uuid \<Rightarrow> real \<Rightarrow> real \<Rightarrow> state \<Rightarrow> state" where
  "insert_resource_history e bid cpu memory s =
     (if bot_exists s bid
      then s\<lparr>resource_history := resource_history s @
             [\<lparr>h_bot_id = bid, h_cpu_usage = cpu, h_memory_usage = memory,
               h_recorded_at = now e\<rparr>]\<rparr>
      else s)"

definition insert_env_vars :: "env \<Rightarrow> uuid \<Rightarrow> (string \<times> string) list \<Rightarrow> state \<Rightarrow> state" where
  "insert_env_vars e bid kvs s =
     (if bot_exists s bid
      then s\<lparr>bot_env_vars := bot_env_vars s @
             map (\<lambda>(k, v). \<lparr>e_bot_id = bid, e_key = k, e_value = v, e_created_at = now e\<rparr>) kvs\<rparr>
      else s)"

section \<open>Requests and responses\<close>

record http_request =
  http_method :: string
  authorization :: "string option"

text \<open>The JSON body of a bot-manager request (\<^verbatim>\<open>BotAction\<close>); an absent field is \<open>None\<close>.\<close>

record bot_action =
  action :: string
  botId :: "string option"
  name :: "string option"
  platform :: "bot_platform option"
  runtime :: "bot_runtime option"
  scriptContent :: "string option"
  envVars :: "(string \<times> string) list option"

text \<open>A bot-manager request; the body is \<open>None\<close> when \<^verbatim>\<open>req.json()\<close> throws.\<close>

record request = http_request +
  body :: "bot_action option"

text \<open>A resource-metrics request with its two query parameters.\<close>

record metrics_request = http_request +
  q_botId :: "string option"
  q_hours :: "string option"

record hb_update =
  up_botId :: uuid
  up_botName :: string
  up_cpu :: real
  up_memory :: real
  up_uptime :: int

record chart_point =
  cp_time :: string
  cp_cpu :: real
  cp_memory :: real

record stats =
  totalBots :: nat
  runningBots :: nat
  totalCpu :: real
  totalMemory :: real
  maxBots :: nat
  maxCpuPerBot :: nat
  maxMemoryPerBot :: nat

text \<open>
  The JSON bodies the three functions produce, one constructor per shape:
  \<^verbatim>\<open>{error, message?}\<close>, \<^verbatim>\<open>{success, bot, message}\<close>,
  \<^verbatim>\<open>{success, status, containerId, resources: {cpu, memory}}\<close>, \<^verbatim>\<open>{success, status}\<close>,
  \<^verbatim>\<open>{success, message}\<close>, \<^verbatim>\<open>{success, bot}\<close>, \<^verbatim>\<open>{success, botsUpdated, updates}\<close>,
  \<^verbatim>\<open>{success, metrics: []}\<close> and \<^verbatim>\<open>{success, chartData, stats, bots}\<close>.
  A response is the HTTP status with the body.
\<close>

datatype payload =
    No_body
  | Error_body string "string option"
  | Deploy_body bot string
  | Run_body string string real real
  | Stop_body string
  | Delete_body string
  | Status_body "bot option"
  | Heartbeat_body nat "hb_update list"
  | Metrics_empty_body
  | Metrics_body "chart_point list" stats "bot list option"

type_synonym response = "nat \<times> payload"

text \<open>JavaScript's \<^verbatim>\<open>!x\<close> on an optional string: absent or empty.\<close>

definition falsy :: "string option \<Rightarrow> bool" where
  "falsy x = (case x of None \<Rightarrow> True | Some v \<Rightarrow> v = [])"

section \<open>bot-manager\<close>

definition generateContainerId :: "env \<Rightarrow> string" where
  "generateContainerId e = ''nexus-'' @ take 12 (randomUUID e)"

text \<open>\<^verbatim>\<open>simulateResourceUsage\<close>, drawing the \<open>n\<close>-th and the next random number.\<close>

definition simulateResourceUsage :: "env \<Rightarrow> nat \<Rightarrow> real \<times> real" where
  "simulateResourceUsage e n =
     (Math_round ((Math_random e n * 8 + 1) * 10) / 10,
      Math_round ((Math_random e (n + 1) * 35 + 5) * 10) / 10)"

definition verifyBotOwnership :: "env \<Rightarrow> user \<Rightarrow> uuid \<Rightarrow> state \<Rightarrow> bool" where
  "verifyBotOwnership e u bid s =
     (case select_bot_single e (User_client (u_id u)) bid s of
        None \<Rightarrow> False
      | Some b \<Rightarrow> b_user_id b = u_id u)"

text \<open>The two helpers of the handler, both through \<^verbatim>\<open>adminClient\<close>.\<close>

definition addLog :: "env \<Rightarrow> uuid \<Rightarrow> string \<Rightarrow> string \<Rightarrow> state \<Rightarrow> state" where
  "addLog e bid level message s = insert_bot_log e bid level message s"

definition recordResources :: "env \<Rightarrow> uuid \<Rightarrow> real \<Rightarrow> real \<Rightarrow> state \<Rightarrow> state" where
  "recordResources e bid cpu memory s = insert_resource_history e bid cpu memory s"

definition missing_botId :: response where
  "missing_botId = (400, Error_body ''Missing botId'' None)"

definition access_denied :: response where
  "access_denied = (403, Error_body ''Bot not found or access denied'' None)"

definition deploy :: "env \<Rightarrow> user \<Rightarrow> bot_action \<Rightarrow> state \<Rightarrow> response \<times> state" where
  \<open>deploy e u a s =
     (case (name a, platform a, runtime a) of
        (Some nm, Some pf, Some rt) \<Rightarrow>
          if nm = []
          then ((400, Error_body ''Missing required fields: name, platform, runtime'' None), s)
          else
            let count = map_option length
                          (select_bots_of_user e (User_client (u_id u)) (u_id u) s)
            in if (case count of Some n \<Rightarrow> n \<ge> 3 | None \<Rightarrow> False)
               then ((400, Error_body ''Bot limit reached''
                             (Some ''Maximum 3 bots allowed per user.'')), s)
               else
                 let cid = generateContainerId e
                 in (case insert_bot e (User_client (u_id u))
                           \<lparr>b_id = gen_random_uuid e, b_user_id = u_id u, b_name = nm,
                            b_platform = pf, b_runtime = rt, b_status = Offline,
                            b_container_id = Some cid, b_script_content = scriptContent a,
                            b_cpu_usage = Some 0, b_memory_usage = Some 0,
                            b_uptime_seconds = Some 0, b_last_started_at = None,
                            b_created_at = now e, b_updated_at = now e\<rparr> s of
                      Inl createError \<Rightarrow> ((400, Error_body createError None), s)
                    | Inr (created, s1) \<Rightarrow>
                        let s2 = (case envVars a of
                                    None \<Rightarrow> s1
                                  | Some evs \<Rightarrow>
                                      if length evs > 0
                                      then let envVarsToInsert =
                                                 filter (\<lambda>(k, v). k \<noteq> [] \<and> v \<noteq> []) evs
                                           in if length envVarsToInsert > 0
                                              then insert_env_vars e (b_id created) envVarsToInsert s1
                                              else s1
                                      else s1);
                            s3 = addLog e (b_id created) ''info''
                                   (''Bot "'' @ nm @ ''" created with container '' @ cid) s2;
                            s4 = addLog e (b_id created) ''info''
                                   (''Runtime: '' @ (case rt of Python \<Rightarrow> ''python''
                                                     | Nodejs \<Rightarrow> ''nodejs'' | Php \<Rightarrow> ''php'')
                                    @ '', Platform: '' @ (case pf of Telegram \<Rightarrow> ''telegram''
                                                          | Discord \<Rightarrow> ''discord'')) s3
                        in ((200, Deploy_body created (''Bot "'' @ nm @ ''" deployed successfully'')),
                            s4))
      | _ \<Rightarrow> ((400, Error_body ''Missing required fields: name, platform, runtime'' None), s))\<close>

definition start :: "env \<Rightarrow> user \<Rightarrow> bot_action \<Rightarrow> state \<Rightarrow> response \<times> state" where
  "start e u a s =
     (case botId a of
        None \<Rightarrow> (missing_botId, s)
      | Some bid \<Rightarrow>
          if bid = [] then (missing_botId, s)
          else if \<not> verifyBotOwnership e u bid s then (access_denied, s)
          else
            let (cpu, memory) = simulateResourceUsage e 0;
                cid = generateContainerId e;
                s1 = s\<lparr>containerStates := (containerStates s)(bid \<mapsto>
                        \<lparr>cs_containerId = cid, cs_status = ''running'', cs_startedAt = now e,
                         cs_cpuUsage = cpu, cs_memoryUsage = memory\<rparr>)\<rparr>;
                (updateError, s2) =
                   update_bots e (User_client (u_id u)) bid
                     (\<lambda>b. b\<lparr>b_status := Online, b_container_id := Some cid,
                             b_last_started_at := Some (now e),
                             b_cpu_usage := Some cpu, b_memory_usage := Some memory\<rparr>) s1
            in (case updateError of
                 Some err \<Rightarrow> ((500, Error_body err None), s2)
               | None \<Rightarrow>
                   let s3 = addLog e bid ''info'' ''Bot started successfully'' s2;
                       s4 = addLog e bid ''info'' (''Container '' @ cid @ '' is running'') s3;
                       s5 = addLog e bid ''debug''
                              (''Resources allocated: '' @ numToString e cpu @ ''% CPU, ''
                               @ numToString e memory @ ''MB RAM'') s4;
                       s6 = recordResources e bid cpu memory s5
                   in ((200, Run_body ''online'' cid cpu memory), s6)))"

definition stop :: "env \<Rightarrow> user \<Rightarrow> bot_action \<Rightarrow> state \<Rightarrow> response \<times> state" where
  "stop e u a s =
     (case botId a of
        None \<Rightarrow> (missing_botId, s)
      | Some bid \<Rightarrow>
          if bid = [] then (missing_botId, s)
          else if \<not> verifyBotOwnership e u bid s then (access_denied, s)
          else
            let s1 = s\<lparr>containerStates := (containerStates s)(bid := None)\<rparr>;
                (updateError, s2) =
                   update_bots e (User_client (u_id u)) bid
                     (\<lambda>b. b\<lparr>b_status := Stopped, b_cpu_usage := Some 0,
                             b_memory_usage := Some 0\<rparr>) s1
            in (case updateError of
                 Some err \<Rightarrow> ((500, Error_body err None), s2)
               | None \<Rightarrow>
                   let s3 = addLog e bid ''info'' ''Bot stopped'' s2;
                       s4 = addLog e bid ''info'' ''Container terminated gracefully'' s3
                   in ((200, Stop_body ''stopped''), s4)))"

definition restart :: "env \<Rightarrow> user \<Rightarrow> bot_action \<Rightarrow> state \<Rightarrow> response \<times> state" where
  "restart e u a s =
     (case botId a of
        None \<Rightarrow> (missing_botId, s)
      | Some bid \<Rightarrow>
          if bid = [] then (missing_botId, s)
          else if \<not> verifyBotOwnership e u bid s then (access_denied, s)
          else
            let s1 = addLog e bid ''info'' ''Restarting bot...'' s;
                (cpu, memory) = simulateResourceUsage e 0;
                newContainerId = generateContainerId e;
                (updateError, s2) =
                   update_bots e (User_client (u_id u)) bid
                     (\<lambda>b. b\<lparr>b_status := Online, b_container_id := Some newContainerId,
                             b_last_started_at := Some (now e),
                             b_cpu_usage := Some cpu, b_memory_usage := Some memory\<rparr>) s1
            in (case updateError of
                 Some err \<Rightarrow> ((500, Error_body err None), s2)
               | None \<Rightarrow>
                   let s3 = addLog e bid ''info'' ''Bot restarted successfully'' s2;
                       s4 = addLog e bid ''info''
                              (''New container '' @ newContainerId @ '' is running'') s3;
                       s5 = recordResources e bid cpu memory s4
                   in ((200, Run_body ''online'' newContainerId cpu memory), s5)))"

definition delete :: "env \<Rightarrow> user \<Rightarrow> bot_action \<Rightarrow> state \<Rightarrow> response \<times> state" where
  "delete e u a s =
     (case botId a of
        None \<Rightarrow> (missing_botId, s)
      | Some bid \<Rightarrow>
          if bid = [] then (missing_botId, s)
          else if \<not> verifyBotOwnership e u bid s then (access_denied, s)
          else
            let s1 = s\<lparr>containerStates := (containerStates s)(bid := None)\<rparr>;
                (deleteError, s2) = delete_bots e (User_client (u_id u)) bid s1
            in (case deleteError of
                 Some err \<Rightarrow> ((500, Error_body err None), s2)
               | None \<Rightarrow> ((200, Delete_body ''Bot deleted successfully''), s2)))"

definition status :: "env \<Rightarrow> user \<Rightarrow> bot_action \<Rightarrow> state \<Rightarrow> response \<times> state" where
  "status e u a s =
     (case botId a of
        None \<Rightarrow> (missing_botId, s)
      | Some bid \<Rightarrow>
          if bid = [] then (missing_botId, s)
          else if \<not> verifyBotOwnership e u bid s then (access_denied, s)
          else
            let found = select_bot_single e (User_client (u_id u)) bid s
            in (case found of
                 None \<Rightarrow> ((200, Status_body found), s)
               | Some b \<Rightarrow>
                   if b_status b = Online
                   then
                     let (cpu, memory) = simulateResourceUsage e 0;
                         (updateError, s1) =
                            update_bots e (User_client (u_id u)) bid
                              (\<lambda>r. r\<lparr>b_cpu_usage := Some cpu, b_memory_usage := Some memory\<rparr>) s;
                         s2 = recordResources e bid cpu memory s1
                     in ((200, Status_body
                                 (Some (b\<lparr>b_cpu_usage := Some cpu, b_memory_usage := Some memory\<rparr>))),
                         s2)
                   else ((200, Status_body found), s)))"

text \<open>
  The handler: CORS preflight, authentication, the verified-email gate, then the body
  and the dispatch on its action.
\<close>

definition bot_manager :: "env \<Rightarrow> request \<Rightarrow> state \<Rightarrow> response \<times> state" where
  "bot_manager e req s =
     (if http_method req = ''OPTIONS'' then ((200, No_body), s)
      else case authorization req of
        None \<Rightarrow> ((401, Error_body ''Missing authorization header'' None), s)
      | Some authHeader \<Rightarrow>
          if authHeader = []
          then ((401, Error_body ''Missing authorization header'' None), s)
          else (case getUser e authHeader of
             None \<Rightarrow> ((401, Error_body ''Invalid or expired token'' None), s)
           | Some u \<Rightarrow>
               if email_confirmed_at u = None
               then ((403, Error_body ''Email not verified''
                             (Some ''Please verify your email before deploying or managing bots.'')),
                     s)
               else (case body req of
                       None \<Rightarrow> ((500, Error_body ''Internal server error'' None), s)
                     | Some a \<Rightarrow>
                         if action a = ''deploy'' then deploy e u a s
                         else if action a = ''start'' then start e u a s
                         else if action a = ''stop'' then stop e u a s
                         else if action a = ''restart'' then restart e u a s
                         else if action a = ''delete'' then delete e u a s
                         else if action a = ''status'' then status e u a s
                         else ((400, Error_body ''Invalid action'' None), s))))"

section \<open>bot-heartbeat\<close>

text \<open>The five synthetic log lines, as (level, message).\<close>

definition logMessages :: "env \<Rightarrow> real \<Rightarrow> (string \<times> string) list" where
  "logMessages e memoryUsage =
     [(''info'', ''Processing incoming message...''),
      (''debug'', ''Heartbeat check passed''),
      (''info'', ''Webhook delivered successfully''),
      (''info'', ''User command processed''),
      (''debug'', ''Memory usage: '' @ numToString e memoryUsage @ ''MB'')]"

text \<open>
  One iteration of the loop over the fetched bots.  The loop state is the store, the
  number of random draws made so far and the \<^verbatim>\<open>updates\<close> array.  The index into
  \<^verbatim>\<open>logMessages\<close> is below five because the draw is below one.
\<close>

definition heartbeat_bot ::
  "env \<Rightarrow> bot \<Rightarrow> state \<times> nat \<times> hb_update list \<Rightarrow> state \<times> nat \<times> hb_update list" where
  "heartbeat_bot e b acc =
     (case acc of (s, n, updates) \<Rightarrow>
        let cpuUsage = Math_round ((Math_random e n * 8 + 1) * 10) / 10;
            memoryUsage = Math_round ((Math_random e (n + 1) * 35 + 5) * 10) / 10;
            startedAt = (case b_last_started_at b of Some t \<Rightarrow> t | None \<Rightarrow> now e);
            uptimeSeconds = (now e - startedAt) div 1000;
            (updateError, s1) =
               update_bots e Admin_client (b_id b)
                 (\<lambda>r. r\<lparr>b_cpu_usage := Some cpuUsage, b_memory_usage := Some memoryUsage,
                         b_uptime_seconds := Some uptimeSeconds\<rparr>) s;
            (s2, updates2) =
               (if updateError = None
                then (insert_resource_history e (b_id b) cpuUsage memoryUsage s1,
                      updates @ [\<lparr>up_botId = b_id b, up_botName = b_name b, up_cpu = cpuUsage,
                                  up_memory = memoryUsage, up_uptime = uptimeSeconds\<rparr>])
                else (s1, updates))
        in if Math_random e (n + 2) > 7 / 10
           then let (level, message) =
                      logMessages e memoryUsage ! nat \<lfloor>Math_random e (n + 3) * 5\<rfloor>
                in (insert_bot_log e (b_id b) level message s2, n + 4, updates2)
           else (s2, n + 3, updates2))"

fun sweep ::
  "env \<Rightarrow> bot list \<Rightarrow> state \<times> nat \<times> hb_update list \<Rightarrow> state \<times> nat \<times> hb_update list" where
  "sweep e [] acc = acc"
| "sweep e (b # bs) acc = sweep e bs (heartbeat_bot e b acc)"

text \<open>
  The handler.  It reads nothing of the request but its HTTP method; a failed fetch of the
  running bots is thrown and caught as a 500.
\<close>

definition bot_heartbeat :: "env \<Rightarrow> 'a http_request_scheme \<Rightarrow> state \<Rightarrow> response \<times> state" where
  "bot_heartbeat e req s =
     (if http_method req = ''OPTIONS'' then ((200, No_body), s)
      else case select_error e ''bots'' of
        Some fetchError \<Rightarrow> ((500, Error_body ''Internal server error'' None), s)
      | None \<Rightarrow>
          let runningBots = filter (\<lambda>b. b_status b = Online) (bots s);
              (s', n, updates) = sweep e runningBots (s, 0, [])
          in ((200, Heartbeat_body (length updates) updates), s'))"

section \<open>resource-metrics\<close>

text \<open>
  The key of an hour bucket.  The source takes the first 13 characters of the ISO string
  of the instant (\<^verbatim>\<open>YYYY-MM-DDTHH\<close>, in UTC); the model uses the number of whole
  hours since the epoch, which determines that prefix and is ordered like it.
\<close>

definition hour_of :: "timestamp \<Rightarrow> int" where
  "hour_of t = t div 3600000"

record hour_bucket =
  hb_cpu :: "real list"
  hb_memory :: "real list"
  hb_count :: nat

text \<open>
  \<^verbatim>\<open>hourlyMetrics\<close> is an object used as a dictionary; \<^verbatim>\<open>Object.entries\<close> lists its
  keys in insertion order, so it is an association list: a new hour goes to the end,
  a known hour is updated in place.
\<close>

fun push_record :: "int \<Rightarrow> real \<Rightarrow> real \<Rightarrow> (int \<times> hour_bucket) list \<Rightarrow> (int \<times> hour_bucket) list" where
  "push_record h c m [] = [(h, \<lparr>hb_cpu = [c], hb_memory = [m], hb_count = 1\<rparr>)]"
| "push_record h c m ((k, d) # rest) =
     (if k = h
      then (k, \<lparr>hb_cpu = hb_cpu d @ [c], hb_memory = hb_memory d @ [m],
                hb_count = hb_count d + 1\<rparr>) # rest
      else (k, d) # push_record h c m rest)"

fun hourly ::
  "resource_sample list \<Rightarrow> (int \<times> hour_bucket) list \<Rightarrow> (int \<times> hour_bucket) list" where
  "hourly [] hourlyMetrics = hourlyMetrics"
| "hourly (record # history) hourlyMetrics =
     hourly history
       (push_record (hour_of (h_recorded_at record)) (h_cpu_usage record)
          (h_memory_usage record) hourlyMetrics)"

definition chart_point_of :: "env \<Rightarrow> int \<times> hour_bucket \<Rightarrow> chart_point" where
  "chart_point_of e entry =
     (case entry of (hour, d) \<Rightarrow>
        \<lparr>cp_time = toLocaleTimeString e (hour * 3600000),
         cp_cpu = Math_round (foldl (+) 0 (hb_cpu d) / real (hb_count d) * 10) / 10,
         cp_memory = Math_round (foldl (+) 0 (hb_memory d) / real (hb_count d) * 10) / 10\<rparr>)"

text \<open>
  \<^verbatim>\<open>.from("resource_history").select("*").in("bot_id", botIds).gte("recorded_at", cutoff)
  .order("recorded_at", {ascending: true})\<close> through the caller's client.
\<close>

definition select_history ::
  "env \<Rightarrow> client \<Rightarrow> uuid list \<Rightarrow> timestamp \<Rightarrow> state \<Rightarrow> string + resource_sample list" where
  "select_history e c botIds cutoff s =
     (case select_error e ''resource_history'' of
        Some err \<Rightarrow> Inl err
      | None \<Rightarrow>
          Inr (sort_key h_recorded_at
                 (filter (\<lambda>h. h_bot_id h \<in> set botIds \<and> h_recorded_at h \<ge> cutoff
                             \<and> rls_child c s (h_bot_id h))
                    (resource_history s))))"

text \<open>\<^verbatim>\<open>.from("bots").select("*").in("id", botIds)\<close>.\<close>

definition select_bots_in :: "env \<Rightarrow> client \<Rightarrow> uuid list \<Rightarrow> state \<Rightarrow> bot list option" where
  "select_bots_in e c botIds s =
     (case select_error e ''bots'' of
        Some err \<Rightarrow> None
      | None \<Rightarrow> Some (filter (\<lambda>b. b_id b \<in> set botIds \<and> rls c b) (bots s)))"

definition current_stats :: "bot list option \<Rightarrow> stats" where
  "current_stats currentBots =
     (let bs = (case currentBots of None \<Rightarrow> [] | Some l \<Rightarrow> l)
      in \<lparr>totalBots = length bs,
          runningBots = length (filter (\<lambda>b. b_status b = Online) bs),
          totalCpu = foldl (\<lambda>sum b. sum + (case b_cpu_usage b of Some c \<Rightarrow> c | None \<Rightarrow> 0)) 0 bs,
          totalMemory =
            foldl (\<lambda>sum b. sum + (case b_memory_usage b of Some m \<Rightarrow> m | None \<Rightarrow> 0)) 0 bs,
          maxBots = 3, maxCpuPerBot = 10, maxMemoryPerBot = 50\<rparr>)"

text \<open>
  The handler; it writes nothing.  \<^verbatim>\<open>parseInt\<close> yielding \<^verbatim>\<open>NaN\<close> (\<open>None\<close>), or a cutoff
  outside the range of \<^verbatim>\<open>Date\<close>, makes \<^verbatim>\<open>toISOString\<close> throw, which is caught as a 500.
\<close>

definition resource_metrics :: "env \<Rightarrow> metrics_request \<Rightarrow> state \<Rightarrow> response" where
  "resource_metrics e req s =
     (if http_method req = ''OPTIONS'' then (200, No_body)
      else case authorization req of
        None \<Rightarrow> (401, Error_body ''Missing authorization header'' None)
      | Some authHeader \<Rightarrow>
          if authHeader = [] then (401, Error_body ''Missing authorization header'' None)
          else (case getUser e authHeader of
             None \<Rightarrow> (401, Error_body ''Invalid or expired token'' None)
           | Some u \<Rightarrow>
               let botId = (case q_botId req of
                              None \<Rightarrow> None
                            | Some v \<Rightarrow> if v = [] then None else Some v);
                   hours = parseInt e (case q_hours req of
                                         None \<Rightarrow> ''24''
                                       | Some v \<Rightarrow> if v = [] then ''24'' else v);
                   userBots = select_bots_of_user e (User_client (u_id u)) (u_id u) s
               in if (case userBots of None \<Rightarrow> True | Some l \<Rightarrow> length l = 0)
                  then (200, Metrics_empty_body)
                  else
                    let ids = map b_id (case userBots of None \<Rightarrow> [] | Some l \<Rightarrow> l);
                        botIds = (case botId of None \<Rightarrow> ids | Some v \<Rightarrow> [v])
                    in if (case botId of None \<Rightarrow> False | Some v \<Rightarrow> v \<notin> set ids)
                       then (403, Error_body ''Bot not found or access denied'' None)
                       else (case hours of
                          None \<Rightarrow> (500, Error_body ''Internal server error'' None)
                        | Some h \<Rightarrow>
                            let cutoffTime = now e - h * 60 * 60 * 1000
                            in if \<bar>cutoffTime\<bar> > 8640000000000000
                               then (500, Error_body ''Internal server error'' None)
                               else (case select_history e (User_client (u_id u)) botIds
                                            cutoffTime s of
                                  Inl historyError \<Rightarrow> (500, Error_body historyError None)
                                | Inr history \<Rightarrow>
                                    let hourlyMetrics = hourly history [];
                                        chartData = map (chart_point_of e) hourlyMetrics;
                                        currentBots =
                                          select_bots_in e (User_client (u_id u)) botIds s
                                    in (200, Metrics_body chartData (current_stats currentBots)
                                               currentBots)))))"

section \<open>Concrete scenarios\<close>

text \<open>
  Three users, Alice and Carol with a confirmed email and Bob without, and a store where
  Alice owns the running bot \<open>a1\<close>, Bob owns the offline bot \<open>b1\<close> and Carol owns
  nothing.
\<close>

definition alice :: user where
  "alice = \<lparr>u_id = ''alice'', email_confirmed_at = Some 1766000000000\<rparr>"

definition carol :: user where
  "carol = \<lparr>u_id = ''carol'', email_confirmed_at = Some 1766000000000\<rparr>"

definition bob :: user where
  "bob = \<lparr>u_id = ''bob'', email_confirmed_at = None\<rparr>"

definition env0 :: env where
  "env0 = \<lparr>now = 1766650000000,
           getUser = (\<lambda>h. if h = ''Bearer A'' then Some alice
                           else if h = ''Bearer B'' then Some bob
                           else if h = ''Bearer C'' then Some carol else None),
           random_bits = (\<lambda>n. 0),
           randomUUID = ''123e4567-e89b-12d3-a456-426614174000'',
           gen_random_uuid = ''a9'',
           numToString = (\<lambda>x. ''n''),
           toLocaleTimeString = (\<lambda>t. ''t''),
           parseInt = (\<lambda>v. if v = ''24'' then Some 24 else None),
           select_error = (\<lambda>tbl. None),
           write_error = (\<lambda>bid. None)\<rparr>"

definition mk_bot :: "uuid \<Rightarrow> uuid \<Rightarrow> bot_status \<Rightarrow> real \<Rightarrow> real \<Rightarrow> bot" where
  "mk_bot bid uid st cpu mem =
     \<lparr>b_id = bid, b_user_id = uid, b_name = ''Echo'', b_platform = Telegram,
      b_runtime = Python, b_status = st, b_container_id = Some ''nexus-0'',
      b_script_content = None, b_cpu_usage = Some cpu, b_memory_usage = Some mem,
      b_uptime_seconds = Some 0, b_last_started_at = Some 1766640000000,
      b_created_at = 1766600000000, b_updated_at = 1766640000000\<rparr>"

definition s0 :: state where
  "s0 = \<lparr>bots = [mk_bot ''a1'' ''alice'' Online 2 20, mk_bot ''b1'' ''bob'' Offline 0 0],
         bot_env_vars = [], bot_logs = [], resource_history = [],
         containerStates = Map.empty\<rparr>"

definition bot_request :: "string \<Rightarrow> string \<Rightarrow> string \<Rightarrow> request" where
  "bot_request token act bid =
     \<lparr>http_method = ''POST'', authorization = Some token,
      body = Some \<lparr>action = act, botId = Some bid, name = None, platform = None,
                   runtime = None, scriptContent = None, envVars = None\<rparr>\<rparr>"

text \<open>The same store without Bob's bot.\<close>

definition s0_without_b1 :: state where
  "s0_without_b1 = s0\<lparr>bots := [mk_bot ''a1'' ''alice'' Online 2 20]\<rparr>"

text \<open>A store where Alice already owns three bots, and a well-formed deploy request.\<close>

definition s3 :: state where
  "s3 = s0\<lparr>bots := [mk_bot ''a1'' ''alice'' Online 2 20, mk_bot ''a2'' ''alice'' Offline 0 0,
                      mk_bot ''a3'' ''alice'' Stopped 0 0]\<rparr>"

definition deploy_action :: bot_action where
  "deploy_action = \<lparr>action = ''deploy'', botId = None, name = Some ''Echo'',
                     platform = Some Telegram, runtime = Some Python,
                     scriptContent = None, envVars = None\<rparr>"

definition deploy_request :: "string \<Rightarrow> request" where
  "deploy_request token =
     \<lparr>http_method = ''POST'', authorization = Some token, body = Some deploy_action\<rparr>"

definition metrics_request_of :: "string \<Rightarrow> metrics_request" where
  "metrics_request_of token =
     \<lparr>http_method = ''GET'', authorization = Some token, q_botId = None, q_hours = None\<rparr>"

text \<open>
  Reading a heartbeat response: its \<^verbatim>\<open>updates\<close> array and \<^verbatim>\<open>botsUpdated\<close> count; and the
  resource sample that the loop inserts next to an entry of \<^verbatim>\<open>updates\<close>.
\<close>

definition sample_of_update :: "env \<Rightarrow> hb_update \<Rightarrow> resource_sample" where
  "sample_of_update e up =
     \<lparr>h_bot_id = up_botId up, h_cpu_usage = up_cpu up, h_memory_usage = up_memory up,
      h_recorded_at = now e\<rparr>"

definition updates_of :: "response \<Rightarrow> hb_update list" where
  "updates_of r = (case snd r of Heartbeat_body n ups \<Rightarrow> ups | _ \<Rightarrow> [])"

definition botsUpdated :: "response \<Rightarrow> nat" where
  "botsUpdated r = (case snd r of Heartbeat_body n ups \<Rightarrow> n | _ \<Rightarrow> 0)"

text \<open>
  A store with running bots of two users, an environment in which the store rejects
  every write to \<open>b2\<close>, and a request with nothing but a method and a credential.
\<close>

definition env_fail :: env where
  "env_fail = env0\<lparr>write_error := (\<lambda>bid. if bid = ''b2'' then Some ''timeout'' else None)\<rparr>"

definition s_hb :: state where
  "s_hb = s0\<lparr>bots := [mk_bot ''a1'' ''alice'' Online 2 20, mk_bot ''b2'' ''bob'' Online 3 30,
                        mk_bot ''b1'' ''bob'' Offline 0 0]\<rparr>"

definition plain_request :: "string option \<Rightarrow> http_request" where
  "plain_request cred = \<lparr>http_method = ''POST'', authorization = cred\<rparr>"

text \<open>
  The resource invariant of a Bot row, and what it means for a step from store \<open>s\<close> to
  store \<open>s'\<close> to respect it: every row of \<open>s'\<close> that is not a row of \<open>s\<close>, so every row
  the step wrote, satisfies it.
\<close>

definition within_limits :: "bot \<Rightarrow> bool" where
  "within_limits b =
     ((case b_cpu_usage b of Some c \<Rightarrow> 0 \<le> c \<and> c \<le> 10 | None \<Rightarrow> False)
      \<and> (case b_memory_usage b of Some m \<Rightarrow> 0 \<le> m \<and> m \<le> 50 | None \<Rightarrow> False))"

definition written_within_limits :: "state \<Rightarrow> state \<Rightarrow> bool" where
  "written_within_limits s s' = (\<forall>b' \<in> set (bots s'). b' \<in> set (bots s) \<or> within_limits b')"













section \<open>Ownership and the verified-email gate\<close>

lemma verifyBotOwnership_not_owner:
  assumes "\<forall>b \<in> set (bots s). b_id b = bid \<longrightarrow> b_user_id b \<noteq> u_id u"
  shows "\<not> verifyBotOwnership e u bid s"
proof -
  have "filter (\<lambda>b. b_id b = bid \<and> rls (User_client (u_id u)) b) (bots s) = []"
    using assms by (auto simp: filter_empty_conv)
  then show ?thesis
    by (simp add: verifyBotOwnership_def select_bot_single_def split: option.splits)
qed

lemma bot_op_not_owner:
  assumes "\<not> verifyBotOwnership e u bid s" and "botId a = Some bid"
  shows "start e u a s = (if bid = [] then missing_botId else access_denied, s)"
    and "stop e u a s = (if bid = [] then missing_botId else access_denied, s)"
    and "restart e u a s = (if bid = [] then missing_botId else access_denied, s)"
    and "delete e u a s = (if bid = [] then missing_botId else access_denied, s)"
    and "status e u a s = (if bid = [] then missing_botId else access_denied, s)"
  using assms by (simp_all add: start_def stop_def restart_def delete_def status_def)

text \<open>
  C3 (as amended).  The verified-email check comes right after authentication and before
  the body is read, for every request, whatever its action: an authenticated caller
  whose email is not confirmed gets the 403 "Email not verified" and nothing is changed.
  This holds for the read-only action status as for the mutating ones.
\<close>

theorem email_gate_before_every_action:
  assumes "http_method req \<noteq> ''OPTIONS''"
    and "authorization req = Some h" and "h \<noteq> []"
    and "getUser e h = Some u"
    and "email_confirmed_at u = None"
  shows "bot_manager e req s =
           ((403, Error_body ''Email not verified''
                    (Some ''Please verify your email before deploying or managing bots.'')), s)"
  using assms by (simp add: bot_manager_def)

theorem email_gate_before_every_action_witness:
  "http_method (bot_request ''Bearer B'' ''stop'' ''b1'') \<noteq> ''OPTIONS''
   \<and> authorization (bot_request ''Bearer B'' ''stop'' ''b1'') = Some ''Bearer B''
   \<and> getUser env0 ''Bearer B'' = Some bob
   \<and> email_confirmed_at bob = None
   \<and> bot_manager env0 (bot_request ''Bearer B'' ''stop'' ''b1'') s0 =
        ((403, Error_body ''Email not verified''
                 (Some ''Please verify your email before deploying or managing bots.'')), s0)"
  using email_gate_before_every_action
          [of "bot_request ''Bearer B'' ''stop'' ''b1''" "''Bearer B''" env0 bob s0]
  by (simp add: bot_request_def env0_def bob_def)

text \<open>
  The claim as stated fails: Bob is authenticated, owns \<open>b1\<close> and has no confirmed
  email; his status request on \<open>b1\<close> is answered 403 "Email not verified".
\<close>

theorem status_unverified_owner_counterexample:
  "getUser env0 ''Bearer B'' = Some bob
   \<and> email_confirmed_at bob = None
   \<and> verifyBotOwnership env0 bob ''b1'' s0
   \<and> fst (bot_manager env0 (bot_request ''Bearer B'' ''status'' ''b1'') s0) =
        (403, Error_body ''Email not verified''
                (Some ''Please verify your email before deploying or managing bots.''))"
  by (simp add: bot_manager_def bot_request_def env0_def bob_def s0_def mk_bot_def
        verifyBotOwnership_def select_bot_single_def)

text \<open>
  C8.  For start, stop, restart, delete and status, a caller who does not own the
  addressed bot gets the same response, and changes nothing, whether the bot id belongs
  to another user (\<open>s1\<close>) or to no bot at all (\<open>s2\<close>); for a verified caller and a
  non-empty id that response is the 403 "Bot not found or access denied".
\<close>

theorem non_owner_cannot_probe:
  assumes "http_method req \<noteq> ''OPTIONS''"
    and "authorization req = Some h" and "h \<noteq> []"
    and "getUser e h = Some u"
    and "body req = Some a"
    and "action a \<in> {''start'', ''stop'', ''restart'', ''delete'', ''status''}"
    and "botId a = Some bid"
    and "\<exists>b \<in> set (bots s1). b_id b = bid"
    and "\<forall>b \<in> set (bots s1). b_id b = bid \<longrightarrow> b_user_id b \<noteq> u_id u"
    and "\<forall>b \<in> set (bots s2). b_id b \<noteq> bid"
  shows "fst (bot_manager e req s1) = fst (bot_manager e req s2)
         \<and> snd (bot_manager e req s1) = s1
         \<and> snd (bot_manager e req s2) = s2
         \<and> (email_confirmed_at u \<noteq> None \<and> bid \<noteq> [] \<longrightarrow>
              fst (bot_manager e req s1) =
                (403, Error_body ''Bot not found or access denied'' None))"
proof -
  have n1: "\<not> verifyBotOwnership e u bid s1"
    using assms(9) by (rule verifyBotOwnership_not_owner)
  have n2: "\<not> verifyBotOwnership e u bid s2"
    using assms(10) by (intro verifyBotOwnership_not_owner) simp
  note ops1 = bot_op_not_owner [OF n1 assms(7)]
  note ops2 = bot_op_not_owner [OF n2 assms(7)]
  have act: "action a \<noteq> ''deploy''"
    using assms(6) by auto
  have r: "bot_manager e req s =
             (if email_confirmed_at u = None
              then ((403, Error_body ''Email not verified''
                      (Some ''Please verify your email before deploying or managing bots.'')), s)
              else if action a = ''start'' then start e u a s
              else if action a = ''stop'' then stop e u a s
              else if action a = ''restart'' then restart e u a s
              else if action a = ''delete'' then delete e u a s
              else status e u a s)" for s
    using assms(1-6) act by (auto simp: bot_manager_def)
  show ?thesis
    by (simp add: r ops1 ops2 access_denied_def)
qed

theorem non_owner_cannot_probe_witness:
  "fst (bot_manager env0 (bot_request ''Bearer A'' ''delete'' ''b1'') s0) =
     fst (bot_manager env0 (bot_request ''Bearer A'' ''delete'' ''b1'') s0_without_b1)
   \<and> snd (bot_manager env0 (bot_request ''Bearer A'' ''delete'' ''b1'') s0) = s0
   \<and> fst (bot_manager env0 (bot_request ''Bearer A'' ''delete'' ''b1'') s0) =
       (403, Error_body ''Bot not found or access denied'' None)"
proof -
  let ?a = "\<lparr>action = ''delete'', botId = Some ''b1'', name = None, platform = None,
             runtime = None, scriptContent = None, envVars = None\<rparr>"
  let ?req = "bot_request ''Bearer A'' ''delete'' ''b1''"
  have h1: "http_method ?req \<noteq> ''OPTIONS''" by (simp add: bot_request_def)
  have h2: "authorization ?req = Some ''Bearer A''" by (simp add: bot_request_def)
  have h3: "''Bearer A'' \<noteq> []" by simp
  have h4: "getUser env0 ''Bearer A'' = Some alice" by (simp add: env0_def)
  have h5: "body ?req = Some ?a" by (simp add: bot_request_def)
  have h6: "action ?a \<in> {''start'', ''stop'', ''restart'', ''delete'', ''status''}" by simp
  have h7: "botId ?a = Some ''b1''" by simp
  have h8: "\<exists>b \<in> set (bots s0). b_id b = ''b1''" by (simp add: s0_def mk_bot_def)
  have h9: "\<forall>b \<in> set (bots s0). b_id b = ''b1'' \<longrightarrow> b_user_id b \<noteq> u_id alice"
    by (simp add: s0_def mk_bot_def alice_def)
  have h10: "\<forall>b \<in> set (bots s0_without_b1). b_id b \<noteq> ''b1''"
    by (simp add: s0_without_b1_def mk_bot_def)
  have v: "email_confirmed_at alice \<noteq> None \<and> ''b1'' \<noteq> []" by (simp add: alice_def)
  from non_owner_cannot_probe [OF h1 h2 h3 h4 h5 h6 h7 h8 h9 h10] v
  show ?thesis by blast
qed

section \<open>The simulated usage stays below the ceilings\<close>

lemma Math_random_range: "0 \<le> Math_random e n \<and> Math_random e n < 1"
proof -
  have "random_bits e n mod 2 ^ 53 < (2 ^ 53 :: nat)" by simp
  then have "real (random_bits e n mod 2 ^ 53) < 2 ^ 53"
    by (metis of_nat_less_iff of_nat_numeral of_nat_power)
  then show ?thesis by (simp add: Math_random_def)
qed

lemma round_tenth_bounds:
  fixes x :: real and a b :: int
  assumes "of_int a \<le> x * 10" and "x * 10 \<le> of_int b"
  shows "of_int a / 10 \<le> Math_round (x * 10) / 10 \<and> Math_round (x * 10) / 10 \<le> of_int b / 10"
proof -
  have "a \<le> \<lfloor>x * 10 + 1 / 2\<rfloor>" using assms(1) by linarith
  moreover have "\<lfloor>x * 10 + 1 / 2\<rfloor> \<le> b" using assms(2) by linarith
  ultimately show ?thesis
    by (simp add: Math_round_def divide_le_cancel)
qed

lemma simulate_range:
  "1 \<le> fst (simulateResourceUsage e n) \<and> fst (simulateResourceUsage e n) \<le> 9
   \<and> 5 \<le> snd (simulateResourceUsage e n) \<and> snd (simulateResourceUsage e n) \<le> 40"
proof -
  have r0: "0 \<le> Math_random e n" "Math_random e n < 1"
    and r1: "0 \<le> Math_random e (n + 1)" "Math_random e (n + 1) < 1"
    using Math_random_range by blast+
  have c: "of_int 10 \<le> (Math_random e n * 8 + 1) * 10"
          "(Math_random e n * 8 + 1) * 10 \<le> of_int 90"
    using r0 by simp_all
  have m: "of_int 50 \<le> (Math_random e (n + 1) * 35 + 5) * 10"
          "(Math_random e (n + 1) * 35 + 5) * 10 \<le> of_int 400"
    using r1 by simp_all
  from round_tenth_bounds [OF c] round_tenth_bounds [OF m]
  show ?thesis by (simp add: simulateResourceUsage_def)
qed

lemma validate_within:
  assumes "b_cpu_usage r = Some c" "c \<le> 10" "b_memory_usage r = Some m" "m \<le> 50"
  shows "validate_resource_limits r = r"
  using assms by (simp add: validate_resource_limits_def)

section \<open>Reading and updating an owned row\<close>

lemma filter_map_update:
  assumes "\<And>x. P x \<Longrightarrow> P (g x)"
  shows "filter P (map (\<lambda>x. if P x then g x else x) xs) = map g (filter P xs)"
  using assms by (induction xs) auto

lemma select_bot_single_SomeD:
  assumes "select_bot_single e c bid s = Some b"
  shows "select_error e ''bots'' = None"
    and "filter (\<lambda>r. b_id r = bid \<and> rls c r) (bots s) = [b]"
    and "b_id b = bid" and "rls c b" and "b \<in> set (bots s)"
proof -
  show e: "select_error e ''bots'' = None"
    using assms by (simp add: select_bot_single_def split: option.splits)
  show f: "filter (\<lambda>r. b_id r = bid \<and> rls c r) (bots s) = [b]"
    using assms e by (simp add: select_bot_single_def split: list.splits)
  have "b \<in> set (filter (\<lambda>r. b_id r = bid \<and> rls c r) (bots s))"
    by (simp only: f) simp
  then show "b_id b = bid" and "rls c b" and "b \<in> set (bots s)" by simp_all
qed

lemma verifyBotOwnership_owner:
  assumes "select_bot_single e (User_client (u_id u)) bid s = Some b"
  shows "verifyBotOwnership e u bid s"
  using assms select_bot_single_SomeD(4) [OF assms]
  by (simp add: verifyBotOwnership_def)

lemma bot_exists_update_bots:
  assumes "\<And>r. b_id (chg r) = b_id r"
  shows "bot_exists (snd (update_bots e c bid chg s)) x = bot_exists s x"
proof -
  have "b_id ` (\<lambda>b. if b_id b = bid \<and> rls c b
                      then update_updated_at_column (now e) (validate_resource_limits (chg b))
                      else b) ` set (bots s) = b_id ` set (bots s)"
    by (rule image_cong [OF refl, THEN trans [OF image_image]])
       (simp add: assms update_updated_at_column_def validate_resource_limits_def Let_def
             split: option.splits)
  then show ?thesis
    by (simp add: update_bots_def bot_exists_def split: option.splits)
qed

lemma update_bots_owned:
  assumes sel: "select_bot_single e (User_client uid) bid s = Some b"
    and ok: "write_error e bid = None"
    and keep: "\<And>r. b_id (chg r) = b_id r \<and> b_user_id (chg r) = b_user_id r"
    and rd: "select_error e' ''bots'' = None"
  shows "fst (update_bots e (User_client uid) bid chg s) = None"
    and "select_bot_single e' (User_client uid) bid (snd (update_bots e (User_client uid) bid chg s))
           = Some (update_updated_at_column (now e) (validate_resource_limits (chg b)))"
    and "bot_logs (snd (update_bots e (User_client uid) bid chg s)) = bot_logs s"
    and "resource_history (snd (update_bots e (User_client uid) bid chg s)) = resource_history s"
    and "bot_env_vars (snd (update_bots e (User_client uid) bid chg s)) = bot_env_vars s"
    and "containerStates (snd (update_bots e (User_client uid) bid chg s)) = containerStates s"
proof -
  let ?P = "\<lambda>r. b_id r = bid \<and> rls (User_client uid) r"
  let ?g = "\<lambda>r. update_updated_at_column (now e) (validate_resource_limits (chg r))"
  have g: "?P (?g r)" if "?P r" for r
    using that keep [of r]
    by (simp add: update_updated_at_column_def validate_resource_limits_def Let_def
          split: option.splits)
  have "filter ?P (map (\<lambda>x. if ?P x then ?g x else x) (bots s)) = map ?g (filter ?P (bots s))"
    using g by (rule filter_map_update)
  then have f: "filter ?P (map (\<lambda>x. if ?P x then ?g x else x) (bots s)) = [?g b]"
    by (simp only: select_bot_single_SomeD(2) [OF sel]) simp
  show "fst (update_bots e (User_client uid) bid chg s) = None"
    using ok by (simp add: update_bots_def)
  show "select_bot_single e' (User_client uid) bid (snd (update_bots e (User_client uid) bid chg s))
           = Some (?g b)"
    using ok rd f by (simp add: update_bots_def select_bot_single_def)
  show "bot_logs (snd (update_bots e (User_client uid) bid chg s)) = bot_logs s"
    and "resource_history (snd (update_bots e (User_client uid) bid chg s)) = resource_history s"
    and "bot_env_vars (snd (update_bots e (User_client uid) bid chg s)) = bot_env_vars s"
    and "containerStates (snd (update_bots e (User_client uid) bid chg s)) = containerStates s"
    using ok by (simp_all add: update_bots_def)
qed

lemma select_bot_single_cong:
  assumes "bots s' = bots s"
  shows "select_bot_single e c bid s' = select_bot_single e c bid s"
  unfolding select_bot_single_def by (simp only: assms)

lemma insert_child_bots [simp]:
  "bots (insert_bot_log e bid lv msg s) = bots s"
  "bots (insert_resource_history e bid cpu mem s) = bots s"
  by (simp_all add: insert_bot_log_def insert_resource_history_def)

section \<open>Stop followed by status\<close>

text \<open>
  C6.  For a bot the caller owns (the caller's client reads the row \<open>b\<close> under the id),
  a stop that the store accepts answers \<^verbatim>\<open>{success, status: "stopped"}\<close> and leaves the row
  with status stopped and both usages zero; a status request of the same caller right
  after it returns exactly that row, with \<open>cpu_usage = 0\<close> and \<open>memory_usage = 0\<close>, and
  leaves the whole store as the stop left it: no resampling, no resource sample.
\<close>

theorem stop_then_status:
  assumes "http_method rq \<noteq> ''OPTIONS''"
    and "authorization rq = Some h" and "h \<noteq> []"
    and "getUser e h = Some u" and "email_confirmed_at u \<noteq> None"
    and "body rq = Some a" and "action a = ''stop''"
    and "botId a = Some bid" and "bid \<noteq> []"
    and own: "select_bot_single e (User_client (u_id u)) bid s = Some b"
    and ok: "write_error e bid = None"
    and "http_method rq' \<noteq> ''OPTIONS''"
    and "authorization rq' = Some h'" and "h' \<noteq> []"
    and "getUser e' h' = Some u"
    and "body rq' = Some a'" and "action a' = ''status''"
    and "botId a' = Some bid"
    and rd: "select_error e' ''bots'' = None"
  shows "fst (bot_manager e rq s) = (200, Stop_body ''stopped'')
         \<and> select_bot_single e' (User_client (u_id u)) bid (snd (bot_manager e rq s)) =
             Some (b\<lparr>b_status := Stopped, b_cpu_usage := Some 0, b_memory_usage := Some 0,
                     b_updated_at := now e\<rparr>)
         \<and> bot_manager e' rq' (snd (bot_manager e rq s)) =
             ((200, Status_body
                      (Some (b\<lparr>b_status := Stopped, b_cpu_usage := Some 0,
                               b_memory_usage := Some 0, b_updated_at := now e\<rparr>))),
              snd (bot_manager e rq s))"
proof -
  let ?chg = "\<lambda>r. r\<lparr>b_status := Stopped, b_cpu_usage := Some 0, b_memory_usage := Some 0\<rparr>"
  let ?s1 = "s\<lparr>containerStates := (containerStates s)(bid := None)\<rparr>"
  let ?b1 = "b\<lparr>b_status := Stopped, b_cpu_usage := Some 0, b_memory_usage := Some 0,
               b_updated_at := now e\<rparr>"
  have own1: "select_bot_single e (User_client (u_id u)) bid ?s1 = Some b"
    using own by (simp add: select_bot_single_cong [of ?s1 s])
  have keep: "b_id (?chg r) = b_id r \<and> b_user_id (?chg r) = b_user_id r" for r by simp
  note upd = update_bots_owned [OF own1 ok keep rd]
  have row: "update_updated_at_column (now e) (validate_resource_limits (?chg b)) = ?b1"
    by (simp add: update_updated_at_column_def validate_resource_limits_def)
  obtain s2 where s2: "update_bots e (User_client (u_id u)) bid ?chg ?s1 = (None, s2)"
    using upd(1) by (cases "update_bots e (User_client (u_id u)) bid ?chg ?s1") simp
  let ?s4 = "addLog e bid ''info'' ''Container terminated gracefully''
               (addLog e bid ''info'' ''Bot stopped'' s2)"
  have stop_eq: "bot_manager e rq s = ((200, Stop_body ''stopped''), ?s4)"
    using assms(1-9) verifyBotOwnership_owner [OF own] s2
    by (simp add: bot_manager_def stop_def)
  have bots4: "bots ?s4 = bots s2" by (simp add: addLog_def)
  have sel4: "select_bot_single e' (User_client (u_id u)) bid ?s4 = Some ?b1"
    using upd(2) s2 row select_bot_single_cong [OF bots4] by simp
  have status_eq: "bot_manager e' rq' ?s4 = ((200, Status_body (Some ?b1)), ?s4)"
    using assms(5,9,12-18) verifyBotOwnership_owner [OF sel4] sel4
    by (simp add: bot_manager_def status_def)
  show ?thesis
    using stop_eq sel4 status_eq by simp
qed

theorem stop_then_status_witness:
  "fst (bot_manager env0 (bot_request ''Bearer A'' ''stop'' ''a1'') s0) = (200, Stop_body ''stopped'')
   \<and> bot_manager env0 (bot_request ''Bearer A'' ''status'' ''a1'')
        (snd (bot_manager env0 (bot_request ''Bearer A'' ''stop'' ''a1'') s0)) =
       ((200, Status_body
                (Some ((mk_bot ''a1'' ''alice'' Online 2 20)
                         \<lparr>b_status := Stopped, b_cpu_usage := Some 0, b_memory_usage := Some 0,
                          b_updated_at := now env0\<rparr>))),
        snd (bot_manager env0 (bot_request ''Bearer A'' ''stop'' ''a1'') s0))"
proof -
  let ?rq = "bot_request ''Bearer A'' ''stop'' ''a1''"
  let ?rq' = "bot_request ''Bearer A'' ''status'' ''a1''"
  let ?a = "\<lparr>action = ''stop'', botId = Some ''a1'', name = None, platform = None,
             runtime = None, scriptContent = None, envVars = None\<rparr>"
  let ?a' = "\<lparr>action = ''status'', botId = Some ''a1'', name = None, platform = None,
              runtime = None, scriptContent = None, envVars = None\<rparr>"
  have h1: "http_method ?rq \<noteq> ''OPTIONS''" by (simp add: bot_request_def)
  have h2: "authorization ?rq = Some ''Bearer A''" by (simp add: bot_request_def)
  have h3: "''Bearer A'' \<noteq> []" by simp
  have h4: "getUser env0 ''Bearer A'' = Some alice" by (simp add: env0_def)
  have h5: "email_confirmed_at alice \<noteq> None" by (simp add: alice_def)
  have h6: "body ?rq = Some ?a" by (simp add: bot_request_def)
  have h7: "action ?a = ''stop''" by simp
  have h8: "botId ?a = Some ''a1''" by simp
  have h9: "''a1'' \<noteq> []" by simp
  have h10: "select_bot_single env0 (User_client (u_id alice)) ''a1'' s0 =
               Some (mk_bot ''a1'' ''alice'' Online 2 20)"
    by (simp add: select_bot_single_def env0_def s0_def mk_bot_def alice_def)
  have h11: "write_error env0 ''a1'' = None" by (simp add: env0_def)
  have h12: "http_method ?rq' \<noteq> ''OPTIONS''" by (simp add: bot_request_def)
  have h13: "authorization ?rq' = Some ''Bearer A''" by (simp add: bot_request_def)
  have h16: "body ?rq' = Some ?a'" by (simp add: bot_request_def)
  have h17: "action ?a' = ''status''" by simp
  have h18: "botId ?a' = Some ''a1''" by simp
  have h19: "select_error env0 ''bots'' = None" by (simp add: env0_def)
  from stop_then_status [OF h1 h2 h3 h4 h5 h6 h7 h8 h9 h10 h11 h12 h13 h3 h4 h16 h17 h18 h19]
  show ?thesis by blast
qed

section \<open>Restart\<close>

text \<open>
  C5 (as amended).  For a bot the caller owns, in any status, a restart that the store
  accepts appends the "Restarting bot..." info entry, sets the status to online and
  writes the fresh unit id, the last-started instant and the sampled usage onto the row,
  then appends two more info entries ("Bot restarted successfully" and
  "New container ... is running", no debug entry) and exactly one resource sample.
\<close>

theorem restart_effects:
  assumes "http_method rq \<noteq> ''OPTIONS''"
    and "authorization rq = Some h" and "h \<noteq> []"
    and "getUser e h = Some u" and "email_confirmed_at u \<noteq> None"
    and "body rq = Some a" and "action a = ''restart''"
    and "botId a = Some bid" and "bid \<noteq> []"
    and own: "select_bot_single e (User_client (u_id u)) bid s = Some b"
    and ok: "write_error e bid = None"
  shows "fst (bot_manager e rq s) =
           (200, Run_body ''online'' (generateContainerId e)
                   (fst (simulateResourceUsage e 0)) (snd (simulateResourceUsage e 0)))
         \<and> select_bot_single e (User_client (u_id u)) bid (snd (bot_manager e rq s)) =
             Some (b\<lparr>b_status := Online, b_container_id := Some (generateContainerId e),
                     b_last_started_at := Some (now e),
                     b_cpu_usage := Some (fst (simulateResourceUsage e 0)),
                     b_memory_usage := Some (snd (simulateResourceUsage e 0)),
                     b_updated_at := now e\<rparr>)
         \<and> bot_logs (snd (bot_manager e rq s)) = bot_logs s @
             [\<lparr>l_bot_id = bid, l_level = ''info'', l_message = ''Restarting bot...'',
               l_created_at = now e\<rparr>,
              \<lparr>l_bot_id = bid, l_level = ''info'', l_message = ''Bot restarted successfully'',
               l_created_at = now e\<rparr>,
              \<lparr>l_bot_id = bid, l_level = ''info'',
               l_message = ''New container '' @ generateContainerId e @ '' is running'',
               l_created_at = now e\<rparr>]
         \<and> resource_history (snd (bot_manager e rq s)) = resource_history s @
             [\<lparr>h_bot_id = bid, h_cpu_usage = fst (simulateResourceUsage e 0),
               h_memory_usage = snd (simulateResourceUsage e 0), h_recorded_at = now e\<rparr>]"
proof -
  let ?cpu = "fst (simulateResourceUsage e 0)" and ?mem = "snd (simulateResourceUsage e 0)"
  let ?cid = "generateContainerId e"
  let ?chg = "\<lambda>r. r\<lparr>b_status := Online, b_container_id := Some ?cid,
                      b_last_started_at := Some (now e),
                      b_cpu_usage := Some ?cpu, b_memory_usage := Some ?mem\<rparr>"
  let ?s1 = "addLog e bid ''info'' ''Restarting bot...'' s"
  let ?b1 = "b\<lparr>b_status := Online, b_container_id := Some ?cid,
               b_last_started_at := Some (now e),
               b_cpu_usage := Some ?cpu, b_memory_usage := Some ?mem, b_updated_at := now e\<rparr>"
  have rd: "select_error e ''bots'' = None" by (rule select_bot_single_SomeD(1) [OF own])
  have ex: "bot_exists s bid"
    using select_bot_single_SomeD(3,5) [OF own] by (auto simp: bot_exists_def)
  have bots1: "bots ?s1 = bots s" by (simp add: addLog_def)
  have own1: "select_bot_single e (User_client (u_id u)) bid ?s1 = Some b"
    using own by (simp add: select_bot_single_cong [OF bots1])
  have keep: "b_id (?chg r) = b_id r \<and> b_user_id (?chg r) = b_user_id r" for r by simp
  note upd = update_bots_owned [OF own1 ok keep rd]
  have "?cpu \<le> 10" "?mem \<le> 50" using simulate_range [of e 0] by simp_all
  then have "validate_resource_limits (?chg b) = ?chg b"
    by (intro validate_within [where c = ?cpu and m = ?mem]) simp_all
  then have row: "update_updated_at_column (now e) (validate_resource_limits (?chg b)) = ?b1"
    by (simp add: update_updated_at_column_def)
  obtain s2 where s2: "update_bots e (User_client (u_id u)) bid ?chg ?s1 = (None, s2)"
    using upd(1) by (cases "update_bots e (User_client (u_id u)) bid ?chg ?s1") simp
  have ex2: "bot_exists s2 bid"
    using bot_exists_update_bots [of ?chg e "User_client (u_id u)" bid ?s1 bid] s2 ex bots1
    by (simp add: bot_exists_def)
  let ?s5 = "recordResources e bid ?cpu ?mem
               (addLog e bid ''info'' (''New container '' @ ?cid @ '' is running'')
                  (addLog e bid ''info'' ''Bot restarted successfully'' s2))"
  have eq: "bot_manager e rq s = ((200, Run_body ''online'' ?cid ?cpu ?mem), ?s5)"
    using assms(1-9) verifyBotOwnership_owner [OF own] s2
    by (simp add: bot_manager_def restart_def split_beta Let_def)
  have bots5: "bots ?s5 = bots s2" by (simp add: addLog_def recordResources_def)
  have sel: "select_bot_single e (User_client (u_id u)) bid ?s5 = Some ?b1"
    using upd(2) s2 row select_bot_single_cong [OF bots5] by simp
  have logs2: "bot_logs s2 = bot_logs s @
                 [\<lparr>l_bot_id = bid, l_level = ''info'', l_message = ''Restarting bot...'',
                   l_created_at = now e\<rparr>]"
    using upd(3) s2 ex by (simp add: addLog_def insert_bot_log_def)
  have hist2: "resource_history s2 = resource_history s"
    using upd(4) s2 by (simp add: addLog_def insert_bot_log_def)
  have logs5: "bot_logs ?s5 = bot_logs s2 @
                 [\<lparr>l_bot_id = bid, l_level = ''info'', l_message = ''Bot restarted successfully'',
                   l_created_at = now e\<rparr>,
                  \<lparr>l_bot_id = bid, l_level = ''info'',
                   l_message = ''New container '' @ ?cid @ '' is running'',
                   l_created_at = now e\<rparr>]"
    using ex2 by (simp add: addLog_def recordResources_def insert_bot_log_def
                      insert_resource_history_def bot_exists_def)
  have hist5: "resource_history ?s5 = resource_history s2 @
                 [\<lparr>h_bot_id = bid, h_cpu_usage = ?cpu, h_memory_usage = ?mem,
                   h_recorded_at = now e\<rparr>]"
    using ex2 by (simp add: addLog_def recordResources_def insert_bot_log_def
                      insert_resource_history_def bot_exists_def)
  show ?thesis
    unfolding eq fst_conv snd_conv sel logs5 logs2 hist5 hist2 by simp
qed

theorem restart_effects_witness:
  "fst (bot_manager env0 (bot_request ''Bearer A'' ''restart'' ''a1'') s0) =
     (200, Run_body ''online'' (generateContainerId env0)
             (fst (simulateResourceUsage env0 0)) (snd (simulateResourceUsage env0 0)))
   \<and> bot_logs (snd (bot_manager env0 (bot_request ''Bearer A'' ''restart'' ''a1'') s0)) =
       bot_logs s0 @
       [\<lparr>l_bot_id = ''a1'', l_level = ''info'', l_message = ''Restarting bot...'',
         l_created_at = now env0\<rparr>,
        \<lparr>l_bot_id = ''a1'', l_level = ''info'', l_message = ''Bot restarted successfully'',
         l_created_at = now env0\<rparr>,
        \<lparr>l_bot_id = ''a1'', l_level = ''info'',
         l_message = ''New container '' @ generateContainerId env0 @ '' is running'',
         l_created_at = now env0\<rparr>]
   \<and> resource_history (snd (bot_manager env0 (bot_request ''Bearer A'' ''restart'' ''a1'') s0)) =
       resource_history s0 @
       [\<lparr>h_bot_id = ''a1'', h_cpu_usage = fst (simulateResourceUsage env0 0),
         h_memory_usage = snd (simulateResourceUsage env0 0), h_recorded_at = now env0\<rparr>]"
proof -
  let ?rq = "bot_request ''Bearer A'' ''restart'' ''a1''"
  let ?a = "\<lparr>action = ''restart'', botId = Some ''a1'', name = None, platform = None,
             runtime = None, scriptContent = None, envVars = None\<rparr>"
  have h1: "http_method ?rq \<noteq> ''OPTIONS''" by (simp add: bot_request_def)
  have h2: "authorization ?rq = Some ''Bearer A''" by (simp add: bot_request_def)
  have h3: "''Bearer A'' \<noteq> []" by simp
  have h4: "getUser env0 ''Bearer A'' = Some alice" by (simp add: env0_def)
  have h5: "email_confirmed_at alice \<noteq> None" by (simp add: alice_def)
  have h6: "body ?rq = Some ?a" by (simp add: bot_request_def)
  have h7: "action ?a = ''restart''" by simp
  have h8: "botId ?a = Some ''a1''" by simp
  have h9: "''a1'' \<noteq> []" by simp
  have h10: "select_bot_single env0 (User_client (u_id alice)) ''a1'' s0 =
               Some (mk_bot ''a1'' ''alice'' Online 2 20)"
    by (simp add: select_bot_single_def env0_def s0_def mk_bot_def alice_def)
  have h11: "write_error env0 ''a1'' = None" by (simp add: env0_def)
  from restart_effects [OF h1 h2 h3 h4 h5 h6 h7 h8 h9 h10 h11]
  show ?thesis by blast
qed

text \<open>
  The claim as stated fails: Alice's restart of her bot \<open>a1\<close> succeeds and leaves three
  log entries in the empty log, all of level info; the claim asks for the restarting
  entry followed by the three entries of start, one of them of level debug.
\<close>

theorem restart_logs_counterexample:
  "verifyBotOwnership env0 alice ''a1'' s0
   \<and> fst (fst (bot_manager env0 (bot_request ''Bearer A'' ''restart'' ''a1'') s0)) = 200
   \<and> map l_level (bot_logs (snd (bot_manager env0 (bot_request ''Bearer A'' ''restart'' ''a1'') s0)))
       = [''info'', ''info'', ''info'']
   \<and> bot_logs s0 = []"
  by (simp add: bot_manager_def restart_def bot_request_def env0_def alice_def s0_def mk_bot_def
        verifyBotOwnership_def select_bot_single_def update_bots_def addLog_def
        recordResources_def insert_bot_log_def insert_resource_history_def bot_exists_def
        simulateResourceUsage_def Math_random_def Math_round_def generateContainerId_def
        update_updated_at_column_def validate_resource_limits_def Let_def)

section \<open>The quota of three bots\<close>

lemma deploy_over_quota:
  assumes "length (filter (\<lambda>b. b_user_id b = u_id u) (bots s)) \<ge> 3"
  shows "snd (deploy e u a s) = s"
    and "fst (fst (deploy e u a s)) = 400"
    and "name a = Some nm \<Longrightarrow> nm \<noteq> [] \<Longrightarrow> platform a \<noteq> None \<Longrightarrow> runtime a \<noteq> None \<Longrightarrow>
         select_error e ''bots'' = None \<Longrightarrow>
         fst (deploy e u a s) =
           (400, Error_body ''Bot limit reached'' (Some ''Maximum 3 bots allowed per user.''))"
    and "name a = Some nm \<Longrightarrow> nm \<noteq> [] \<Longrightarrow> platform a \<noteq> None \<Longrightarrow> runtime a \<noteq> None \<Longrightarrow>
         select_error e ''bots'' \<noteq> None \<Longrightarrow> write_error e (gen_random_uuid e) = None \<Longrightarrow>
         fst (deploy e u a s) =
           (400, Error_body ''Bot limit exceeded. Maximum 3 bots allowed per user.'' None)"
  using assms
  by (auto simp: deploy_def select_bots_of_user_def insert_bot_def check_bot_limit_def Let_def
           split: option.splits sum.splits prod.splits)

lemma insert_bot_over_quota:
  assumes "length (filter (\<lambda>b. b_user_id b = b_user_id NEW) (bots s)) \<ge> 3"
  shows "isl (insert_bot e c NEW s)"
  using assms
  by (simp add: insert_bot_def check_bot_limit_def Let_def split: option.splits)

lemma bot_manager_dispatch:
  assumes "http_method rq \<noteq> ''OPTIONS''"
    and "authorization rq = Some h" and "h \<noteq> []"
    and "getUser e h = Some u" and "email_confirmed_at u \<noteq> None"
    and "body rq = Some a"
  shows "bot_manager e rq s =
           (if action a = ''deploy'' then deploy e u a s
            else if action a = ''start'' then start e u a s
            else if action a = ''stop'' then stop e u a s
            else if action a = ''restart'' then restart e u a s
            else if action a = ''delete'' then delete e u a s
            else if action a = ''status'' then status e u a s
            else ((400, Error_body ''Invalid action'' None), s))"
  using assms by (auto simp: bot_manager_def)

text \<open>
  C2.  A deploy request of a verified caller who already owns three bots (or more)
  is answered with status 400 and changes nothing, so no Bot row is created and deploy
  succeeds only below three.  With the required fields present the error is the quota
  error: "Bot limit reached" from the controller's count check when the count can be
  read, and otherwise "Bot limit exceeded..." raised by the insert trigger, which
  rejects every insert of a row of that user whichever client issues it.
\<close>

theorem deploy_quota:
  assumes "http_method rq \<noteq> ''OPTIONS''"
    and "authorization rq = Some h" and "h \<noteq> []"
    and "getUser e h = Some u" and "email_confirmed_at u \<noteq> None"
    and "body rq = Some a" and "action a = ''deploy''"
    and quota: "length (filter (\<lambda>b. b_user_id b = u_id u) (bots s)) \<ge> 3"
  shows "snd (bot_manager e rq s) = s
         \<and> fst (fst (bot_manager e rq s)) = 400
         \<and> (name a \<noteq> None \<and> name a \<noteq> Some [] \<and> platform a \<noteq> None \<and> runtime a \<noteq> None \<longrightarrow>
              (if select_error e ''bots'' = None
               then fst (bot_manager e rq s) =
                      (400, Error_body ''Bot limit reached''
                              (Some ''Maximum 3 bots allowed per user.''))
               else write_error e (gen_random_uuid e) = None \<longrightarrow>
                    fst (bot_manager e rq s) =
                      (400, Error_body ''Bot limit exceeded. Maximum 3 bots allowed per user.''
                              None)))
         \<and> (\<forall>c NEW. b_user_id NEW = u_id u \<longrightarrow> isl (insert_bot e c NEW s))"
proof -
  have eq: "bot_manager e rq s = deploy e u a s"
    using bot_manager_dispatch [OF assms(1-6)] assms(7) by simp
  note d = deploy_over_quota [OF quota, where e = e and a = a]
  have "\<forall>c NEW. b_user_id NEW = u_id u \<longrightarrow> isl (insert_bot e c NEW s)"
    using quota by (auto intro: insert_bot_over_quota)
  then show ?thesis
    unfolding eq using d by auto
qed

theorem deploy_quota_witness:
  "length (filter (\<lambda>b. b_user_id b = u_id alice) (bots s3)) \<ge> 3
   \<and> bot_manager env0 (deploy_request ''Bearer A'') s3 =
       ((400, Error_body ''Bot limit reached'' (Some ''Maximum 3 bots allowed per user.'')), s3)"
proof -
  let ?rq = "deploy_request ''Bearer A''"
  have h1: "http_method ?rq \<noteq> ''OPTIONS''" by (simp add: deploy_request_def)
  have h2: "authorization ?rq = Some ''Bearer A''" by (simp add: deploy_request_def)
  have h3: "''Bearer A'' \<noteq> []" by simp
  have h4: "getUser env0 ''Bearer A'' = Some alice" by (simp add: env0_def)
  have h5: "email_confirmed_at alice \<noteq> None" by (simp add: alice_def)
  have h6: "body ?rq = Some deploy_action" by (simp add: deploy_request_def)
  have h7: "action deploy_action = ''deploy''" by (simp add: deploy_action_def)
  have h8: "length (filter (\<lambda>b. b_user_id b = u_id alice) (bots s3)) \<ge> 3"
    by (simp add: s3_def s0_def mk_bot_def alice_def)
  have v: "name deploy_action \<noteq> None \<and> name deploy_action \<noteq> Some []
           \<and> platform deploy_action \<noteq> None \<and> runtime deploy_action \<noteq> None"
    by (simp add: deploy_action_def)
  have r: "select_error env0 ''bots'' = None" by (simp add: env0_def)
  from deploy_quota [OF h1 h2 h3 h4 h5 h6 h7 h8] v r h8
  show ?thesis by (simp add: prod_eq_iff)
qed

section \<open>Metrics of a caller without bots\<close>

text \<open>
  C4.  Carol is authenticated and owns no bot.  The handler answers her with the early
  return \<^verbatim>\<open>{success: true, metrics: []}\<close>, which is not the body
  \<^verbatim>\<open>{success, chartData: [], stats: {0, 0, 0, 0, 3, 10, 50}, bots: []}\<close> that the
  declared result type of the client and the main path of the handler use.
\<close>

theorem metrics_zero_bots_response:
  "getUser env0 ''Bearer C'' = Some carol
   \<and> filter (\<lambda>b. b_user_id b = u_id carol) (bots s0) = []
   \<and> resource_metrics env0 (metrics_request_of ''Bearer C'') s0 = (200, Metrics_empty_body)
   \<and> resource_metrics env0 (metrics_request_of ''Bearer C'') s0 \<noteq>
       (200, Metrics_body [] \<lparr>totalBots = 0, runningBots = 0, totalCpu = 0, totalMemory = 0,
                               maxBots = 3, maxCpuPerBot = 10, maxMemoryPerBot = 50\<rparr> (Some []))"
  by (simp add: resource_metrics_def metrics_request_of_def env0_def carol_def s0_def mk_bot_def
        select_bots_of_user_def Let_def)

section \<open>The heartbeat sweep\<close>

lemma heartbeat_bot_exists:
  "bot_exists (fst (heartbeat_bot e b (s, n, ups))) x = bot_exists s x"
proof -
  let ?chg = "\<lambda>r. r\<lparr>b_cpu_usage := Some (Math_round ((Math_random e n * 8 + 1) * 10) / 10),
                      b_memory_usage := Some (Math_round ((Math_random e (n + 1) * 35 + 5) * 10) / 10),
                      b_uptime_seconds := Some ((now e - (case b_last_started_at b of Some t \<Rightarrow> t | None \<Rightarrow> now e)) div 1000)\<rparr>"
  have "bot_exists (snd (update_bots e Admin_client (b_id b) ?chg s)) x = bot_exists s x"
    by (rule bot_exists_update_bots) simp
  then show ?thesis
    by (simp add: heartbeat_bot_def Let_def split_beta insert_resource_history_def
          insert_bot_log_def bot_exists_def)
qed

lemma heartbeat_bot_effect:
  assumes "bot_exists s (b_id b)"
  shows "\<exists>new. snd (snd (heartbeat_bot e b (s, n, ups))) = ups @ new
           \<and> resource_history (fst (heartbeat_bot e b (s, n, ups))) =
               resource_history s @ map (sample_of_update e) new
           \<and> map up_botId new = (if write_error e (b_id b) = None then [b_id b] else [])"
proof (cases "write_error e (b_id b)")
  case None
  let ?chg = "\<lambda>r. r\<lparr>b_cpu_usage := Some (Math_round ((Math_random e n * 8 + 1) * 10) / 10),
                      b_memory_usage := Some (Math_round ((Math_random e (n + 1) * 35 + 5) * 10) / 10),
                      b_uptime_seconds := Some ((now e - (case b_last_started_at b of Some t \<Rightarrow> t | None \<Rightarrow> now e)) div 1000)\<rparr>"
  have ex: "bot_exists (snd (update_bots e Admin_client (b_id b) ?chg s)) (b_id b)"
    using assms bot_exists_update_bots [of ?chg e Admin_client "b_id b" s "b_id b"] by simp
  have h: "resource_history (snd (update_bots e Admin_client (b_id b) ?chg s)) = resource_history s"
    by (simp add: update_bots_def None)
  have f: "fst (update_bots e Admin_client (b_id b) ?chg s) = None"
    by (simp add: update_bots_def None)
  show ?thesis
    apply (rule exI [of _ "[\<lparr>up_botId = b_id b, up_botName = b_name b,
                            up_cpu = Math_round ((Math_random e n * 8 + 1) * 10) / 10,
                            up_memory = Math_round ((Math_random e (n + 1) * 35 + 5) * 10) / 10,
                            up_uptime = (now e - (case b_last_started_at b of Some t \<Rightarrow> t | None \<Rightarrow> now e)) div 1000\<rparr>]"])
    using ex h f None
    by (simp add: heartbeat_bot_def Let_def split_beta insert_resource_history_def
          insert_bot_log_def sample_of_update_def)
next
  case (Some err)
  show ?thesis
    apply (rule exI [of _ "[]"])
    using Some
    by (simp add: heartbeat_bot_def Let_def split_beta update_bots_def insert_bot_log_def)
qed

lemma sweep_effect:
  assumes "\<forall>b \<in> set bs. bot_exists s (b_id b)"
  shows "\<exists>new. snd (snd (sweep e bs (s, n, ups))) = ups @ new
           \<and> resource_history (fst (sweep e bs (s, n, ups))) =
               resource_history s @ map (sample_of_update e) new
           \<and> map up_botId new = map b_id (filter (\<lambda>b. write_error e (b_id b) = None) bs)"
  using assms
proof (induction bs arbitrary: s n ups)
  case Nil
  then show ?case by simp
next
  case (Cons b bs)
  obtain s1 n1 ups1 where step: "heartbeat_bot e b (s, n, ups) = (s1, n1, ups1)"
    by (cases "heartbeat_bot e b (s, n, ups)") auto
  have "bot_exists s (b_id b)" using Cons.prems by simp
  from heartbeat_bot_effect [OF this, of e n ups] step
  obtain new1 where n1: "ups1 = ups @ new1"
      "resource_history s1 = resource_history s @ map (sample_of_update e) new1"
      "map up_botId new1 = (if write_error e (b_id b) = None then [b_id b] else [])"
    by auto
  have "\<forall>x \<in> set bs. bot_exists s1 (b_id x)"
    using Cons.prems heartbeat_bot_exists [of e b s n ups] step by simp
  from Cons.IH [OF this, of n1 ups1]
  obtain new2 where n2: "snd (snd (sweep e bs (s1, n1, ups1))) = ups1 @ new2"
      "resource_history (fst (sweep e bs (s1, n1, ups1))) =
         resource_history s1 @ map (sample_of_update e) new2"
      "map up_botId new2 = map b_id (filter (\<lambda>b. write_error e (b_id b) = None) bs)"
    by auto
  show ?case
    apply (rule exI [of _ "new1 @ new2"])
    using n1 n2 step by simp
qed

lemma bot_heartbeat_result:
  assumes "http_method req \<noteq> ''OPTIONS''" and "select_error e ''bots'' = None"
  shows "fst (fst (bot_heartbeat e req s)) = 200"
    and "botsUpdated (fst (bot_heartbeat e req s)) =
           length [b \<leftarrow> bots s. b_status b = Online \<and> write_error e (b_id b) = None]"
    and "map up_botId (updates_of (fst (bot_heartbeat e req s))) =
           map b_id [b \<leftarrow> bots s. b_status b = Online \<and> write_error e (b_id b) = None]"
    and "resource_history (snd (bot_heartbeat e req s)) =
           resource_history s @
           map (sample_of_update e) (updates_of (fst (bot_heartbeat e req s)))"
proof -
  let ?bs = "filter (\<lambda>b. b_status b = Online) (bots s)"
  have "\<forall>b \<in> set ?bs. bot_exists s (b_id b)" by (simp add: bot_exists_def)
  from sweep_effect [OF this, of e 0 "[]"]
  obtain new where new: "snd (snd (sweep e ?bs (s, 0, []))) = new"
      "resource_history (fst (sweep e ?bs (s, 0, []))) =
         resource_history s @ map (sample_of_update e) new"
      "map up_botId new =
         map b_id [b \<leftarrow> bots s. b_status b = Online \<and> write_error e (b_id b) = None]"
    by auto
  have eq: "bot_heartbeat e req s =
              ((200, Heartbeat_body (length new) new), fst (sweep e ?bs (s, 0, [])))"
    using assms new(1) by (simp add: bot_heartbeat_def Let_def split_beta)
  have len: "length new =
               length [b \<leftarrow> bots s. b_status b = Online \<and> write_error e (b_id b) = None]"
    using new(3) by (metis length_map)
  show "fst (fst (bot_heartbeat e req s)) = 200"
    and "botsUpdated (fst (bot_heartbeat e req s)) =
           length [b \<leftarrow> bots s. b_status b = Online \<and> write_error e (b_id b) = None]"
    and "map up_botId (updates_of (fst (bot_heartbeat e req s))) =
           map b_id [b \<leftarrow> bots s. b_status b = Online \<and> write_error e (b_id b) = None]"
    and "resource_history (snd (bot_heartbeat e req s)) =
           resource_history s @
           map (sample_of_update e) (updates_of (fst (bot_heartbeat e req s)))"
    using new(2,3) len by (simp_all add: eq botsUpdated_def updates_of_def)
qed

text \<open>
  C7.  When the fetch of the running bots succeeds, the sweep goes through all of them
  whatever happens to each: the \<^verbatim>\<open>updates\<close> array lists, in order, exactly the online bots
  whose row update the store accepted, \<^verbatim>\<open>botsUpdated\<close> is their number, and the resource
  history grows by exactly one sample for each of them and by nothing else.
\<close>

theorem heartbeat_partial_failure:
  assumes "http_method req \<noteq> ''OPTIONS''" and "select_error e ''bots'' = None"
  shows "fst (fst (bot_heartbeat e req s)) = 200
         \<and> botsUpdated (fst (bot_heartbeat e req s)) =
             length [b \<leftarrow> bots s. b_status b = Online \<and> write_error e (b_id b) = None]
         \<and> map up_botId (updates_of (fst (bot_heartbeat e req s))) =
             map b_id [b \<leftarrow> bots s. b_status b = Online \<and> write_error e (b_id b) = None]
         \<and> resource_history (snd (bot_heartbeat e req s)) =
             resource_history s @
             map (sample_of_update e) (updates_of (fst (bot_heartbeat e req s)))"
  using bot_heartbeat_result [OF assms] by blast

theorem heartbeat_partial_failure_witness:
  "write_error env_fail ''b2'' \<noteq> None
   \<and> botsUpdated (fst (bot_heartbeat env_fail (plain_request None) s_hb)) = 1
   \<and> map up_botId (updates_of (fst (bot_heartbeat env_fail (plain_request None) s_hb))) = [''a1'']
   \<and> map h_bot_id (resource_history (snd (bot_heartbeat env_fail (plain_request None) s_hb)))
       = [''a1'']"
proof -
  have h1: "http_method (plain_request None) \<noteq> ''OPTIONS''" by (simp add: plain_request_def)
  have h2: "select_error env_fail ''bots'' = None" by (simp add: env_fail_def env0_def)
  have f: "[b \<leftarrow> bots s_hb. b_status b = Online \<and> write_error env_fail (b_id b) = None]
             = [mk_bot ''a1'' ''alice'' Online 2 20]"
    by (simp add: s_hb_def s0_def mk_bot_def env_fail_def env0_def)
  have w: "write_error env_fail ''b2'' \<noteq> None" by (simp add: env_fail_def env0_def)
  have r: "resource_history s_hb = []" by (simp add: s_hb_def s0_def)
  have i: "b_id (mk_bot ''a1'' ''alice'' Online 2 20) = ''a1''" by (simp add: mk_bot_def)
  have m: "map (h_bot_id \<circ> sample_of_update e) ups = map up_botId ups" for e ups
    by (simp add: sample_of_update_def comp_def)
  from heartbeat_partial_failure [OF h1 h2, of s_hb]
  show ?thesis unfolding f r by (simp add: w i m)
qed






section \<open>The resource ceilings\<close>

lemma wwl_same_bots: "bots s' = bots s \<Longrightarrow> written_within_limits s s'"
  by (simp add: written_within_limits_def)






lemma bots_child_inserts [simp]:
  "bots (addLog e bid lv msg s) = bots s"
  "bots (recordResources e bid cpu mem s) = bots s"
  "bots (insert_env_vars e bid kvs s) = bots s"
  "bots (insert_bot_log e bid lv msg s) = bots s"
  "bots (insert_resource_history e bid cpu mem s) = bots s"
  by (simp_all add: addLog_def recordResources_def insert_env_vars_def insert_bot_log_def
        insert_resource_history_def)


lemma wwl_bots_cong:
  "bots s2 = bots s1 \<Longrightarrow> written_within_limits s s2 = written_within_limits s s1"
  by (simp add: written_within_limits_def)

lemma wwl_child_inserts [simp]:
  "written_within_limits s (addLog e bid lv msg s1) = written_within_limits s s1"
  "written_within_limits s (recordResources e bid cpu mem s1) = written_within_limits s s1"
  "written_within_limits s (insert_env_vars e bid kvs s1) = written_within_limits s s1"
  "written_within_limits s (insert_bot_log e bid lv msg s1) = written_within_limits s s1"
  "written_within_limits s (insert_resource_history e bid cpu mem s1) = written_within_limits s s1"
  by (rule wwl_bots_cong, simp)+

lemma wwl_refl [simp]: "written_within_limits s s"
  by (simp add: written_within_limits_def)















section \<open>Hourly aggregation of the resource history\<close>






















end
